theory Spec2Isabelle
  imports Main
begin

section \<open>The magnetic model cache of \<open>vires/magnetic_models/models.py\<close>\<close>

subsection \<open>Files, exceptions and Python objects\<close>

type_synonym path = string
type_synonym ident = string

text \<open>
  A file on disk, as far as the cache can tell: the fingerprint the change monitor reads
  (its modification time) and the bytes a loader parses.
\<close>

record disk_file =
  fingerprint :: nat
  content :: string

type_synonym filesys = "path \<rightharpoonup> disk_file"

text \<open>
  The exceptions of the modelled code: a missing dictionary key, an unhashable key, a
  fingerprint check on a file that is not there, whatever a loader or a \<open>sources\<close>
  property raises (opaque to the cache, carried as a message), and the two exceptions of
  the management command.
\<close>

datatype exn =
    KeyError string
  | TypeError string
  | FileMissing path
  | LoaderError string
  | SourcesError string
  | InvalidSourcesError string
  | CommandError string

text \<open>
  A model instance as the cache sees it. \<open>inst_id\<close> is the identity of the object
  (\<open>id(model)\<close>): the number of the loader invocation that constructed it.
  \<open>inst_truth\<close> is \<open>bool(model)\<close>, which the test \<open>not model\<close> reads.
  \<open>inst_state\<close> is what the loader parsed.
\<close>

record 'm model_obj =
  inst_id :: nat
  inst_truth :: bool
  inst_state :: 'm

text \<open>
  The part of the process outside the cache object: the file system, which the environment
  changes between calls, and the count of loader invocations made so far.
\<close>

record world =
  disk :: filesys
  loader_calls :: nat

subsection \<open>\<open>FileChangeMonitor\<close>\<close>

text \<open>
  Modelled from the spec: \<open>vires/file_util.py\<close>, which defines \<open>FileChangeMonitor\<close>, is
  not among the sources. The spec gives its contract: it stores a fingerprint per path;
  \<open>changed(*paths)\<close> compares the current fingerprint of each path against the stored one,
  any mismatch, also a path never seen before, yields \<open>True\<close>, and the stored fingerprints
  are updated to the newly observed values; a missing file is a reported error condition.
  The spec does not say what is stored after a reported error: here the stored
  fingerprints are then left as they were.
\<close>

type_synonym FileChangeMonitor = "path \<rightharpoonup> nat"

fun observe :: "filesys \<Rightarrow> path list \<Rightarrow> exn + (path \<times> nat) list" where
  "observe fs [] = Inr []"
| "observe fs (p # ps) =
     (case fs p of
        None \<Rightarrow> Inl (FileMissing p)
      | Some f \<Rightarrow>
          (case observe fs ps of
             Inl e \<Rightarrow> Inl e
           | Inr obs \<Rightarrow> Inr ((p, fingerprint f) # obs)))"

fun store :: "FileChangeMonitor \<Rightarrow> (path \<times> nat) list \<Rightarrow> FileChangeMonitor" where
  "store tr [] = tr"
| "store tr ((p, fp) # obs) = store (tr(p \<mapsto> fp)) obs"

definition changed ::
  "FileChangeMonitor \<Rightarrow> filesys \<Rightarrow> path list \<Rightarrow> (exn + bool) \<times> FileChangeMonitor" where
  "changed tr fs ps =
     (case observe fs ps of
        Inl e \<Rightarrow> (Inl e, tr)
      | Inr obs \<Rightarrow> (Inr (list_ex (\<lambda>(p, fp). tr p \<noteq> Some fp) obs), store tr obs))"

subsection \<open>\<open>ModelFactory\<close>\<close>

text \<open>
  A model file object (\<open>.files\<close>, not among the sources) is used through two attributes
  only: \<open>filename\<close> and \<open>sources\<close>. The latter is recomputed on each access and may read
  the disk, so it is a function of the file system that may raise.
\<close>

record 's model_file =
  filename :: path
  file_sources :: "filesys \<Rightarrow> exn + 's"

text \<open>
  The loader is supplied by the modelling library: it reads the named files and either
  raises or constructs a new object, of which it fixes the truth value and the state.
\<close>

type_synonym 'm loader_fn = "filesys \<Rightarrow> path list \<Rightarrow> exn + (bool \<times> 'm)"

record ('m, 's) ModelFactory =
  loader :: "'m loader_fn"
  model_files :: "'s model_file list"
  tracker :: FileChangeMonitor

definition files :: "('m, 's) ModelFactory \<Rightarrow> path list" where
  "files mf = map filename (model_files mf)"

definition model_changed ::
  "('m, 's) ModelFactory \<Rightarrow> filesys \<Rightarrow> (exn + bool) \<times> ('m, 's) ModelFactory" where
  "model_changed mf fs =
     (case changed (tracker mf) fs (files mf) of
        (r, tr') \<Rightarrow> (r, mf\<lparr>tracker := tr'\<rparr>))"

text \<open>\<open>__call__\<close>: one loader invocation; a constructed object gets the invocation's number.\<close>

definition factory_call ::
  "('m, 's) ModelFactory \<Rightarrow> world \<Rightarrow> (exn + 'm model_obj) \<times> world" where
  "factory_call mf w =
     (let w' = w\<lparr>loader_calls := loader_calls w + 1\<rparr> in
      case loader mf (disk w) (files mf) of
        Inl e \<Rightarrow> (Inl e, w')
      | Inr (t, s) \<Rightarrow>
          (Inr \<lparr>inst_id = loader_calls w', inst_truth = t, inst_state = s\<rparr>, w'))"

fun collect_sources :: "'s model_file list \<Rightarrow> filesys \<Rightarrow> exn + 's list" where
  "collect_sources [] fs = Inr []"
| "collect_sources (f # fl) fs =
     (case file_sources f fs of
        Inl e \<Rightarrow> Inl e
      | Inr s \<Rightarrow>
          (case collect_sources fl fs of
             Inl e \<Rightarrow> Inl e
           | Inr ss \<Rightarrow> Inr (s # ss)))"

definition factory_sources :: "('m, 's) ModelFactory \<Rightarrow> filesys \<Rightarrow> exn + 's list" where
  "factory_sources mf fs = collect_sources (model_files mf) fs"

subsection \<open>\<open>ModelCache\<close>\<close>

record ('m, 's) ModelCache =
  model_factories :: "ident \<rightharpoonup> ('m, 's) ModelFactory"
  model_aliases :: "ident \<rightharpoonup> ident"
  cache :: "ident \<rightharpoonup> 'm model_obj"
  sources :: "ident \<rightharpoonup> 's list"
  logger :: "string list"

text \<open>\<open>ModelCache.__init__\<close>: both dictionaries start empty.\<close>

definition new_ModelCache ::
  "(ident \<rightharpoonup> ('m, 's) ModelFactory) \<Rightarrow> (ident \<rightharpoonup> ident) \<Rightarrow> ('m, 's) ModelCache" where
  "new_ModelCache factories aliases =
     \<lparr>model_factories = factories, model_aliases = aliases,
      cache = Map.empty, sources = Map.empty, logger = []\<rparr>"

text \<open>\<open>self.model_aliases.get(model_id, model_id)\<close>\<close>

definition resolve :: "('m, 's) ModelCache \<Rightarrow> ident \<Rightarrow> ident" where
  "resolve c model_id =
     (case model_aliases c model_id of None \<Rightarrow> model_id | Some canonical \<Rightarrow> canonical)"

text \<open>\<open>not model\<close>, for \<open>model = self.cache.get(model_id)\<close>\<close>

definition not_model :: "'m model_obj option \<Rightarrow> bool" where
  "not_model model = (case model of None \<Rightarrow> True | Some m \<Rightarrow> \<not> inst_truth m)"

type_synonym ('m, 's) lookup = "'m model_obj option \<times> 's list option"

definition get_model_with_sources ::
  "('m, 's) ModelCache \<Rightarrow> world \<Rightarrow> ident \<Rightarrow>
   (exn + ('m, 's) lookup) \<times> ('m, 's) ModelCache \<times> world" where
  "get_model_with_sources c w model_id0 =
     (let model_id = resolve c model_id0 in
      case model_factories c model_id of
        None \<Rightarrow> (Inr (None, None), c, w)
      | Some model_factory \<Rightarrow>
          (let model = cache c model_id in
           case model_changed model_factory (disk w) of
             (r, mf') \<Rightarrow>
               (let c1 = c\<lparr>model_factories := (model_factories c)(model_id \<mapsto> mf')\<rparr> in
                case r of
                  Inl e \<Rightarrow> (Inl e, c1, w)
                | Inr chg \<Rightarrow>
                    if chg \<or> not_model model then
                      (case factory_call mf' w of
                         (Inl e, w') \<Rightarrow> (Inl e, c1, w')
                       | (Inr m, w') \<Rightarrow>
                           (let c2 = c1\<lparr>cache := (cache c1)(model_id \<mapsto> m)\<rparr> in
                            case factory_sources mf' (disk w') of
                              Inl e \<Rightarrow> (Inl e, c2, w')
                            | Inr srcs \<Rightarrow>
                                (Inr (Some m, Some srcs),
                                 c2\<lparr>sources := (sources c2)(model_id \<mapsto> srcs),
                                    logger := logger c2 @ [model_id @ '' model loaded'']\<rparr>,
                                 w')))
                    else
                      (case sources c1 model_id of
                         None \<Rightarrow> (Inl (KeyError model_id), c1, w)
                       | Some srcs \<Rightarrow> (Inr (model, Some srcs), c1, w)))))"

definition get_model ::
  "('m, 's) ModelCache \<Rightarrow> world \<Rightarrow> ident \<Rightarrow>
   (exn + 'm model_obj option) \<times> ('m, 's) ModelCache \<times> world" where
  "get_model c w model_id =
     (case get_model_with_sources c w model_id of
        (Inl e, c', w') \<Rightarrow> (Inl e, c', w')
      | (Inr (model, _), c', w') \<Rightarrow> (Inr model, c', w'))"

subsection \<open>Reachable states of a cache\<close>

text \<open>
  A cache object lives for the whole process: its states are those reached from the
  constructed object by calls of \<open>get_model_with_sources\<close>, with the environment
  free to change the disk between calls.
\<close>

inductive reachable ::
  "('m, 's) ModelCache \<Rightarrow> ('m, 's) ModelCache \<times> world \<Rightarrow> bool" for c0 where
  start: "reachable c0 (c0, w)"
| call: "reachable c0 (c, w) \<Longrightarrow> get_model_with_sources c w model_id = (r, c', w')
         \<Longrightarrow> reachable c0 (c', w')"
| environment: "reachable c0 (c, w) \<Longrightarrow> reachable c0 (c, w\<lparr>disk := fs\<rparr>)"

text \<open>The files behind an identifier, and whether two disks show the same fingerprints
  for a list of paths.\<close>

definition backing_files :: "('m, 's) ModelCache \<Rightarrow> ident \<Rightarrow> path list" where
  "backing_files c model_id =
     (case model_factories c (resolve c model_id) of None \<Rightarrow> [] | Some mf \<Rightarrow> files mf)"

definition same_fingerprints :: "path list \<Rightarrow> filesys \<Rightarrow> filesys \<Rightarrow> bool" where
  "same_fingerprints ps fs fs' =
     list_all (\<lambda>p. map_option fingerprint (fs' p) = map_option fingerprint (fs p)) ps"

definition all_present :: "path list \<Rightarrow> filesys \<Rightarrow> bool" where
  "all_present ps fs = list_all (\<lambda>p. fs p \<noteq> None) ps"

text \<open>Sequencing for scenarios: the next call on the state a call left, and a change of
  the disk by the environment in between.\<close>

type_synonym ('m, 's) outcome = "(exn + ('m, 's) lookup) \<times> ('m, 's) ModelCache \<times> world"

definition then_call :: "('m, 's) outcome \<Rightarrow> ident \<Rightarrow> ('m, 's) outcome" where
  "then_call st model_id = get_model_with_sources (fst (snd st)) (snd (snd st)) model_id"

definition then_disk :: "('m, 's) outcome \<Rightarrow> filesys \<Rightarrow> ('m, 's) outcome" where
  "then_disk st fs = (fst st, fst (snd st), (snd (snd st))\<lparr>disk := fs\<rparr>)"


subsection \<open>The tables \<open>MODEL_ALIASES\<close> and \<open>MODEL_FACTORIES\<close>\<close>

definition MODEL_ALIASES :: "(ident \<times> ident) list" where
  "MODEL_ALIASES =
     [(''IGRF'', ''IGRF13''),
      (''MCO_SHA_2X'', ''CHAOS-Core''),
      (''CHAOS-6-Core'', ''CHAOS-Core''),
      (''CHAOS-6-Static'', ''CHAOS-Static''),
      (''CHAOS-6-MMA-Primary'', ''CHAOS-MMA-Primary''),
      (''CHAOS-6-MMA-Secondary'', ''CHAOS-MMA-Secondary'')]"

text \<open>
  The loaders and the data files come from the library \<open>eoxmagmod\<close>, the model file
  classes from \<open>.files\<close>; the table names them. \<open>load_model_shc_decimal_years\<close> stands
  for \<open>lambda file_: load_model_shc(file_, interpolate_in_decimal_years=True)\<close>.
\<close>

datatype eoxmagmod_loader =
    load_model_shc_decimal_years
  | load_model_shc
  | load_model_swarm_mma_2c_internal
  | load_model_swarm_mma_2c_external
  | load_model_swarm_mma_2f_geo_internal
  | load_model_swarm_mma_2f_geo_external
  | load_model_swarm_mio_internal
  | load_model_swarm_mio_external

datatype data_file = IGRF12 | IGRF13 | CHAOS_STATIC_LATEST | LCS1 | MF7

datatype source_name = Literal string | basename data_file

datatype validity_reader = shc_validity_reader | mio_validity_reader

datatype model_file_cls =
    ModelFileWithLiteralSource data_file source_name validity_reader
  | CachedModelFileWithSourceFile string validity_reader
  | CachedComposedModelFile string

definition IGRF12_SOURCE :: source_name where
  "IGRF12_SOURCE = Literal ''SW_OPER_AUX_IGR_2__19000101T000000_20191231T235959_0102''"

definition IGRF13_SOURCE :: source_name where
  "IGRF13_SOURCE = Literal ''SW_OPER_AUX_IGR_2__19000101T000000_20241231T235959_0103''"

definition CHAOS_STATIC_SOURCE :: source_name where
  "CHAOS_STATIC_SOURCE = basename CHAOS_STATIC_LATEST"

definition LCS1_SOURCE :: source_name where
  "LCS1_SOURCE = basename LCS1"

definition MF7_SOURCE :: source_name where
  "MF7_SOURCE = basename MF7"

definition MODEL_FACTORIES_table ::
  "(ident \<times> eoxmagmod_loader \<times> model_file_cls list) list" where
  "MODEL_FACTORIES_table =
     [(''IGRF12'', load_model_shc_decimal_years,
         [ModelFileWithLiteralSource IGRF12 IGRF12_SOURCE shc_validity_reader]),
      (''IGRF13'', load_model_shc_decimal_years,
         [ModelFileWithLiteralSource IGRF13 IGRF13_SOURCE shc_validity_reader]),
      (''CHAOS-Static'', load_model_shc,
         [ModelFileWithLiteralSource CHAOS_STATIC_LATEST CHAOS_STATIC_SOURCE
            shc_validity_reader]),
      (''CHAOS-Core'', load_model_shc,
         [CachedModelFileWithSourceFile ''MCO_SHA_2X'' shc_validity_reader]),
      (''LCS-1'', load_model_shc,
         [ModelFileWithLiteralSource LCS1 LCS1_SOURCE shc_validity_reader]),
      (''MF7'', load_model_shc,
         [ModelFileWithLiteralSource MF7 MF7_SOURCE shc_validity_reader]),
      (''MCO_SHA_2C'', load_model_shc,
         [CachedModelFileWithSourceFile ''MCO_SHA_2C'' shc_validity_reader]),
      (''MCO_SHA_2D'', load_model_shc,
         [CachedModelFileWithSourceFile ''MCO_SHA_2D'' shc_validity_reader]),
      (''MLI_SHA_2C'', load_model_shc,
         [CachedModelFileWithSourceFile ''MLI_SHA_2C'' shc_validity_reader]),
      (''MLI_SHA_2D'', load_model_shc,
         [CachedModelFileWithSourceFile ''MLI_SHA_2D'' shc_validity_reader]),
      (''MMA_SHA_2C-Primary'', load_model_swarm_mma_2c_external,
         [CachedComposedModelFile ''MMA_SHA_2C'']),
      (''MMA_SHA_2C-Secondary'', load_model_swarm_mma_2c_internal,
         [CachedComposedModelFile ''MMA_SHA_2C'']),
      (''MMA_SHA_2F-Primary'', load_model_swarm_mma_2f_geo_external,
         [CachedComposedModelFile ''MMA_SHA_2F'']),
      (''MMA_SHA_2F-Secondary'', load_model_swarm_mma_2f_geo_internal,
         [CachedComposedModelFile ''MMA_SHA_2F'']),
      (''MIO_SHA_2C-Primary'', load_model_swarm_mio_external,
         [CachedModelFileWithSourceFile ''MIO_SHA_2C'' mio_validity_reader]),
      (''MIO_SHA_2C-Secondary'', load_model_swarm_mio_internal,
         [CachedModelFileWithSourceFile ''MIO_SHA_2C'' mio_validity_reader]),
      (''MIO_SHA_2D-Primary'', load_model_swarm_mio_external,
         [CachedModelFileWithSourceFile ''MIO_SHA_2D'' mio_validity_reader]),
      (''MIO_SHA_2D-Secondary'', load_model_swarm_mio_internal,
         [CachedModelFileWithSourceFile ''MIO_SHA_2D'' mio_validity_reader]),
      (''CHAOS-MMA-Primary'', load_model_swarm_mma_2c_external,
         [CachedComposedModelFile ''MMA_CHAOS_'']),
      (''CHAOS-MMA-Secondary'', load_model_swarm_mma_2c_internal,
         [CachedComposedModelFile ''MMA_CHAOS_''])]"

text \<open>
  What the imported names denote is a parameter: how each library loader reads its
  files, and which file name and sources each model file object has.
\<close>

record ('m, 's) library =
  load_with :: "eoxmagmod_loader \<Rightarrow> 'm loader_fn"
  as_model_file :: "model_file_cls \<Rightarrow> 's model_file"

definition ModelFactory_init ::
  "'m loader_fn \<Rightarrow> 's model_file list \<Rightarrow> ('m, 's) ModelFactory" where
  "ModelFactory_init l mfs = \<lparr>loader = l, model_files = mfs, tracker = Map.empty\<rparr>"

definition MODEL_FACTORIES :: "('m, 's) library \<Rightarrow> (ident \<rightharpoonup> ('m, 's) ModelFactory)" where
  "MODEL_FACTORIES lib =
     map_of (map (\<lambda>(k, l, mfs). (k, ModelFactory_init (load_with lib l) (map (as_model_file lib) mfs)))
               MODEL_FACTORIES_table)"

definition MODEL_LIST :: "ident list" where
  "MODEL_LIST = map fst MODEL_FACTORIES_table @ map fst MODEL_ALIASES"

definition MODEL_CACHE :: "('m, 's) library \<Rightarrow> ('m, 's) ModelCache" where
  "MODEL_CACHE lib = new_ModelCache (MODEL_FACTORIES lib) (map_of MODEL_ALIASES)"

section \<open>The management command \<open>vires_update_cached_product\<close>\<close>

text \<open>
  The options a command receives are a dictionary from option names to values.
  \<open>add_arguments\<close> declares two positional arguments on top of those of the parent
  classes: \<open>product_type\<close>, one of the given choices, and \<open>source\<close>, one or more strings
  (\<open>nargs="+"\<close>). \<open>parse_args\<close> is what the argument parser makes of a command line's
  positional arguments; \<open>base\<close> holds the options of the parent classes.
\<close>

datatype option_value = Str string | StrList "string list"

type_synonym kwargs = "string \<rightharpoonup> option_value"

definition parse_args :: "string list \<Rightarrow> kwargs \<Rightarrow> string list \<Rightarrow> exn + kwargs" where
  "parse_args choices base argv =
     (case argv of
        [] \<Rightarrow> Inl (CommandError ''too few arguments'')
      | product_type # source \<Rightarrow>
          if product_type \<notin> set choices then Inl (CommandError ''invalid choice'')
          else if source = [] then Inl (CommandError ''too few arguments'')
          else Inr (base(''product_type'' \<mapsto> Str product_type, ''source'' \<mapsto> StrList source)))"

text \<open>
  One call of \<open>update_cached_product\<close> (\<open>vires.cached_products\<close>, a parameter here), by its
  keyword arguments. An entry of \<open>CACHED_PRODUCTS\<close> is a dictionary of settings.
\<close>

record update_call =
  call_sources :: option_value
  call_destination :: string
  call_updater :: string
  call_filter :: "string option"
  call_tmp_extension :: "string option"

type_synonym product_info = "string \<rightharpoonup> string"

definition handle ::
  "(update_call \<Rightarrow> exn + unit) \<Rightarrow> (string \<rightharpoonup> product_info) \<Rightarrow> kwargs \<Rightarrow>
   (exn + unit) \<times> update_call list" where
  "handle update_cached_product CACHED_PRODUCTS kwargs =
     (case kwargs ''product_type'' of
        None \<Rightarrow> (Inl (KeyError ''product_type''), [])
      | Some product_type \<Rightarrow>
          (case kwargs ''cource'' of
             None \<Rightarrow> (Inl (KeyError ''cource''), [])
           | Some source \<Rightarrow>
               (case product_type of
                  StrList _ \<Rightarrow> (Inl (TypeError ''unhashable type''), [])
                | Str key \<Rightarrow>
                    (case CACHED_PRODUCTS key of
                       None \<Rightarrow> (Inl (KeyError key), [])
                     | Some product_info \<Rightarrow>
                         (case product_info ''filename'' of
                            None \<Rightarrow> (Inl (KeyError ''filename''), [])
                          | Some destination \<Rightarrow>
                              (let this_call =
                                 \<lparr>call_sources = source,
                                  call_destination = destination,
                                  call_updater =
                                    (case product_info ''updater'' of
                                       None \<Rightarrow> ''copy_file'' | Some u \<Rightarrow> u),
                                  call_filter = product_info ''filter'',
                                  call_tmp_extension = product_info ''tmp_extension''\<rparr>
                               in case update_cached_product this_call of
                                    Inl (InvalidSourcesError msg) \<Rightarrow>
                                      (Inl (CommandError msg), [this_call])
                                  | result \<Rightarrow> (result, [this_call])))))))"

section \<open>A test cache\<close>

text \<open>
  The scenario of the spec: one factory registered as \<open>TEST\<close>, backed by the file
  \<open>f.dat\<close>, with \<open>T\<close> as an alias. \<open>parsing_loader\<close> raises on a missing or empty
  file and otherwise constructs an object holding the file's content.
  \<open>listing_loader\<close> constructs the list of the file's characters: an empty file
  gives an empty list, which Python takes as false.
\<close>

definition TEST_file :: "string model_file" where
  "TEST_file = \<lparr>filename = ''f.dat'', file_sources = (\<lambda>fs. Inr ''f.dat'')\<rparr>"

definition parsing_loader :: "string loader_fn" where
  "parsing_loader fs ps =
     (case ps of
        [p] \<Rightarrow>
          (case fs p of
             None \<Rightarrow> Inl (LoaderError p)
           | Some f \<Rightarrow> if content f = [] then Inl (LoaderError p) else Inr (True, content f))
      | _ \<Rightarrow> Inl (LoaderError ''arguments''))"

definition listing_loader :: "string loader_fn" where
  "listing_loader fs ps =
     (case ps of
        [p] \<Rightarrow>
          (case fs p of
             None \<Rightarrow> Inl (LoaderError p)
           | Some f \<Rightarrow> Inr (content f \<noteq> [], content f))
      | _ \<Rightarrow> Inl (LoaderError ''arguments''))"

definition TEST_factory :: "string loader_fn \<Rightarrow> (string, string) ModelFactory" where
  "TEST_factory l = \<lparr>loader = l, model_files = [TEST_file], tracker = Map.empty\<rparr>"

definition TEST_cache :: "string loader_fn \<Rightarrow> (string, string) ModelCache" where
  "TEST_cache l = new_ModelCache [''TEST'' \<mapsto> TEST_factory l] [''T'' \<mapsto> ''TEST'']"

definition on_disk :: "nat \<Rightarrow> string \<Rightarrow> filesys" where
  "on_disk fp text = [''f.dat'' \<mapsto> \<lparr>fingerprint = fp, content = text\<rparr>]"

definition world0 :: world where
  "world0 = \<lparr>disk = on_disk 1 ''v1'', loader_calls = 0\<rparr>"

definition TEST_library :: "(string, string) library" where
  "TEST_library = \<lparr>load_with = (\<lambda>_. parsing_loader), as_model_file = (\<lambda>_. TEST_file)\<rparr>"

text \<open>
  Runs of the cache with \<open>parsing_loader\<close>: the file is loaded; then it is replaced by
  an empty file with a new fingerprint and the cache is asked twice more; or it is
  replaced by a file the loader accepts and the cache is asked once more.
\<close>

definition run_loaded :: "(string, string) outcome" where
  "run_loaded = get_model_with_sources (TEST_cache parsing_loader) world0 ''TEST''"

definition run_emptied :: "(string, string) outcome" where
  "run_emptied = then_call (then_disk run_loaded (on_disk 2 [])) ''TEST''"

definition run_emptied_again :: "(string, string) outcome" where
  "run_emptied_again = then_call run_emptied ''TEST''"


text \<open>
  Runs with \<open>listing_loader\<close>: an empty file asked for twice with no change in between,
  by its identifier both times, or by the alias first and the identifier next;
  and a file that is loaded, then emptied under a new fingerprint, then asked for twice.
\<close>

definition world_empty :: world where
  "world_empty = \<lparr>disk = on_disk 1 [], loader_calls = 0\<rparr>"

definition list_empty :: "(string, string) outcome" where
  "list_empty = get_model_with_sources (TEST_cache listing_loader) world_empty ''TEST''"

definition list_empty_again :: "(string, string) outcome" where
  "list_empty_again = then_call list_empty ''TEST''"






section \<open>Lemmas\<close>

subsection \<open>The change monitor\<close>

lemma observe_present:
  "\<forall>q\<in>set ps. fs q \<noteq> None \<Longrightarrow>
   observe fs ps = Inr (map (\<lambda>p. (p, fingerprint (the (fs p)))) ps)"
  by (induction ps) auto

lemma observe_Inr_present: "observe fs ps = Inr obs \<Longrightarrow> \<forall>q\<in>set ps. fs q \<noteq> None"
  by (induction ps arbitrary: obs) (auto split: option.splits sum.splits)

lemma store_apply:
  "store tr (map (\<lambda>p. (p, g p)) ps) q = (if q \<in> set ps then Some (g q) else tr q)"
  by (induction ps arbitrary: tr) auto

lemma list_ex_observed:
  "list_ex (\<lambda>(p, fp). tr p \<noteq> Some fp) (map (\<lambda>p. (p, g p)) ps) = (\<exists>p\<in>set ps. tr p \<noteq> Some (g p))"
  by (induction ps) auto

lemma changed_present:
  assumes "\<forall>q\<in>set ps. fs q \<noteq> None"
  shows "changed tr fs ps =
    (Inr (\<exists>p\<in>set ps. tr p \<noteq> Some (fingerprint (the (fs p)))),
     (\<lambda>q. if q \<in> set ps then Some (fingerprint (the (fs q))) else tr q))"
  using assms by (auto simp: changed_def observe_present list_ex_observed store_apply)

lemma changed_Inr_present: "fst (changed tr fs ps) = Inr b \<Longrightarrow> \<forall>q\<in>set ps. fs q \<noteq> None"
  using observe_Inr_present [of fs ps] by (auto simp: changed_def split: sum.splits)


lemma same_fingerprints_at:
  "same_fingerprints ps fs fs' \<Longrightarrow> q \<in> set ps \<Longrightarrow>
   map_option fingerprint (fs' q) = map_option fingerprint (fs q)"
  by (simp add: same_fingerprints_def list_all_iff)

lemma same_fingerprints_present:
  assumes "same_fingerprints ps fs fs'" "\<forall>q\<in>set ps. fs q \<noteq> None"
  shows "\<forall>q\<in>set ps. fs' q \<noteq> None"
proof
  fix q assume q: "q \<in> set ps"
  from same_fingerprints_at [OF assms(1) q] assms(2) q
  show "fs' q \<noteq> None" by (cases "fs' q") auto
qed

lemma same_fingerprints_the:
  assumes "same_fingerprints ps fs fs'" "\<forall>q\<in>set ps. fs q \<noteq> None" "q \<in> set ps"
  shows "fingerprint (the (fs' q)) = fingerprint (the (fs q))"
proof -
  from assms(2,3) obtain f where f: "fs q = Some f" by auto
  from same_fingerprints_at [OF assms(1,3)] f obtain f' where "fs' q = Some f'"
    "fingerprint f' = fingerprint f" by (cases "fs' q") auto
  with f show ?thesis by simp
qed

lemma changed_repeat:
  assumes ok: "fst (changed tr fs ps) = Inr b"
    and same: "same_fingerprints ps fs fs'"
  shows "changed (snd (changed tr fs ps)) fs' ps = (Inr False, snd (changed tr fs ps))"
proof -
  have p: "\<forall>q\<in>set ps. fs q \<noteq> None" using ok by (rule changed_Inr_present)
  have p': "\<forall>q\<in>set ps. fs' q \<noteq> None" using same p by (rule same_fingerprints_present)
  have eq: "\<And>q. q \<in> set ps \<Longrightarrow> fingerprint (the (fs' q)) = fingerprint (the (fs q))"
    using same p by (rule same_fingerprints_the)
  show ?thesis
    by (auto simp: changed_present [OF p] changed_present [OF p'] eq)
qed


lemma changed_first_observation:
  assumes "p \<in> set ps" "tr p = None" "all_present ps fs"
  shows "fst (changed tr fs ps) = Inr True"
proof -
  have q: "\<forall>q\<in>set ps. fs q \<noteq> None" using assms(3) by (simp add: all_present_def list_all_iff)
  have "tr p \<noteq> Some (fingerprint (the (fs p)))" using assms(2) by simp
  with assms(1) have "\<exists>p\<in>set ps. tr p \<noteq> Some (fingerprint (the (fs p)))"
    by (rule bexI [rotated])
  then show ?thesis by (simp add: changed_present [OF q])
qed

subsection \<open>One call of \<open>get_model_with_sources\<close>, branch by branch\<close>

lemmas gmws_defs = get_model_with_sources_def model_changed_def factory_call_def
  factory_sources_def files_def Let_def

lemma step_cached:
  assumes "model_factories c (resolve c mid) = Some mf"
    and "changed (tracker mf) (disk w) (files mf) = (Inr False, tr')"
    and "cache c (resolve c mid) = Some m" "inst_truth m"
    and "sources c (resolve c mid) = Some s"
  shows "get_model_with_sources c w mid =
    (Inr (Some m, Some s),
     c\<lparr>model_factories := (model_factories c)(resolve c mid \<mapsto> mf\<lparr>tracker := tr'\<rparr>)\<rparr>, w)"
  using assms by (simp add: gmws_defs not_model_def)

lemma step_build_raise:
  assumes "model_factories c (resolve c mid) = Some mf"
    and "changed (tracker mf) (disk w) (files mf) = (Inr chg, tr')"
    and "chg \<or> not_model (cache c (resolve c mid))"
    and "loader mf (disk w) (files mf) = Inl e"
  shows "get_model_with_sources c w mid =
    (Inl e,
     c\<lparr>model_factories := (model_factories c)(resolve c mid \<mapsto> mf\<lparr>tracker := tr'\<rparr>)\<rparr>,
     w\<lparr>loader_calls := loader_calls w + 1\<rparr>)"
  using assms by (auto simp add: gmws_defs)



lemma call_frame:
  assumes "get_model_with_sources c w mid = (r, c', w')"
  shows "model_aliases c' = model_aliases c \<and> dom (model_factories c') = dom (model_factories c)
    \<and> disk w' = disk w \<and> loader_calls w \<le> loader_calls w' \<and> loader_calls w' \<le> loader_calls w + 1"
  using assms
  by (auto simp: gmws_defs split: option.splits sum.splits prod.splits if_splits)

lemma post_success:
  assumes "get_model_with_sources c w mid = (Inr (Some m, Some s), c1, w1)"
  shows "\<exists>mf b. model_factories c (resolve c mid) = Some mf
    \<and> fst (changed (tracker mf) (disk w) (files mf)) = Inr b
    \<and> model_factories c1 = (model_factories c)(resolve c mid \<mapsto>
          mf\<lparr>tracker := snd (changed (tracker mf) (disk w) (files mf))\<rparr>)
    \<and> cache c1 (resolve c mid) = Some m
    \<and> sources c1 (resolve c mid) = Some s
    \<and> model_aliases c1 = model_aliases c
    \<and> disk w1 = disk w
    \<and> (cache c (resolve c mid) = Some m \<and> loader_calls w1 = loader_calls w
        \<or> inst_id m = loader_calls w + 1 \<and> loader_calls w1 = loader_calls w + 1)"
  using assms
  by (auto simp: gmws_defs split: option.splits sum.splits prod.splits if_splits)

lemma resolve_cong: "model_aliases c' = model_aliases c \<Longrightarrow> resolve c' mid = resolve c mid"
  by (simp add: resolve_def)

subsection \<open>Object identities\<close>




lemma same_fingerprints_refl: "same_fingerprints ps fs fs"
  by (simp add: same_fingerprints_def list_all_iff)


subsection \<open>The runs of the test cache, evaluated\<close>

lemmas scenario_defs = gmws_defs eval_nat_numeral TEST_cache_def TEST_factory_def TEST_file_def
  new_ModelCache_def world0_def world_empty_def on_disk_def resolve_def not_model_def
  changed_def parsing_loader_def listing_loader_def then_call_def then_disk_def

lemma run_loaded_value:
  "run_loaded =
    (Inr (Some \<lparr>inst_id = 1, inst_truth = True, inst_state = ''v1''\<rparr>, Some [''f.dat'']),
     \<lparr>model_factories = [''TEST'' \<mapsto>
         \<lparr>loader = parsing_loader, model_files = [TEST_file], tracker = [''f.dat'' \<mapsto> 1]\<rparr>],
      model_aliases = [''T'' \<mapsto> ''TEST''],
      cache = [''TEST'' \<mapsto> \<lparr>inst_id = 1, inst_truth = True, inst_state = ''v1''\<rparr>],
      sources = [''TEST'' \<mapsto> [''f.dat'']],
      logger = [''TEST model loaded'']\<rparr>,
     \<lparr>disk = on_disk 1 ''v1'', loader_calls = 1\<rparr>)"
  by (simp add: run_loaded_def scenario_defs)

lemma run_emptied_value:
  "run_emptied =
    (Inl (LoaderError ''f.dat''),
     \<lparr>model_factories = [''TEST'' \<mapsto>
         \<lparr>loader = parsing_loader, model_files = [TEST_file], tracker = [''f.dat'' \<mapsto> 2]\<rparr>],
      model_aliases = [''T'' \<mapsto> ''TEST''],
      cache = [''TEST'' \<mapsto> \<lparr>inst_id = 1, inst_truth = True, inst_state = ''v1''\<rparr>],
      sources = [''TEST'' \<mapsto> [''f.dat'']],
      logger = [''TEST model loaded'']\<rparr>,
     \<lparr>disk = on_disk 2 [], loader_calls = 2\<rparr>)"
  by (simp add: run_emptied_def run_loaded_value scenario_defs)

lemma run_emptied_again_value:
  "run_emptied_again =
    (Inr (Some \<lparr>inst_id = 1, inst_truth = True, inst_state = ''v1''\<rparr>, Some [''f.dat'']),
     \<lparr>model_factories = [''TEST'' \<mapsto>
         \<lparr>loader = parsing_loader, model_files = [TEST_file], tracker = [''f.dat'' \<mapsto> 2]\<rparr>],
      model_aliases = [''T'' \<mapsto> ''TEST''],
      cache = [''TEST'' \<mapsto> \<lparr>inst_id = 1, inst_truth = True, inst_state = ''v1''\<rparr>],
      sources = [''TEST'' \<mapsto> [''f.dat'']],
      logger = [''TEST model loaded'']\<rparr>,
     \<lparr>disk = on_disk 2 [], loader_calls = 2\<rparr>)"
  by (simp add: run_emptied_again_def run_emptied_value scenario_defs)

lemma list_empty_value:
  "list_empty =
    (Inr (Some \<lparr>inst_id = 1, inst_truth = False, inst_state = []\<rparr>, Some [''f.dat'']),
     \<lparr>model_factories = [''TEST'' \<mapsto>
         \<lparr>loader = listing_loader, model_files = [TEST_file], tracker = [''f.dat'' \<mapsto> 1]\<rparr>],
      model_aliases = [''T'' \<mapsto> ''TEST''],
      cache = [''TEST'' \<mapsto> \<lparr>inst_id = 1, inst_truth = False, inst_state = []\<rparr>],
      sources = [''TEST'' \<mapsto> [''f.dat'']],
      logger = [''TEST model loaded'']\<rparr>,
     \<lparr>disk = on_disk 1 [], loader_calls = 1\<rparr>)"
  by (simp add: list_empty_def scenario_defs)

lemma list_empty_again_value:
  "list_empty_again =
    (Inr (Some \<lparr>inst_id = 2, inst_truth = False, inst_state = []\<rparr>, Some [''f.dat'']),
     \<lparr>model_factories = [''TEST'' \<mapsto>
         \<lparr>loader = listing_loader, model_files = [TEST_file], tracker = [''f.dat'' \<mapsto> 1]\<rparr>],
      model_aliases = [''T'' \<mapsto> ''TEST''],
      cache = [''TEST'' \<mapsto> \<lparr>inst_id = 2, inst_truth = False, inst_state = []\<rparr>],
      sources = [''TEST'' \<mapsto> [''f.dat'']],
      logger = [''TEST model loaded'', ''TEST model loaded'']\<rparr>,
     \<lparr>disk = on_disk 1 [], loader_calls = 2\<rparr>)"
  by (simp add: list_empty_again_def list_empty_value scenario_defs)




subsection \<open>A second call on unchanged files\<close>

lemma cached_again:
  assumes first: "get_model_with_sources c w mid = (Inr (Some m, Some s), c1, w1)"
    and truthy: "inst_truth m"
    and same: "same_fingerprints (backing_files c mid) (disk w) fs'"
  shows "get_model_with_sources c1 (w1\<lparr>disk := fs'\<rparr>) mid
       = (Inr (Some m, Some s), c1, w1\<lparr>disk := fs'\<rparr>)"
proof -
  from post_success [OF first] obtain mf b where
    mf: "model_factories c (resolve c mid) = Some mf"
    and b: "fst (changed (tracker mf) (disk w) (files mf)) = Inr b"
    and mf1: "model_factories c1 = (model_factories c)(resolve c mid \<mapsto>
          mf\<lparr>tracker := snd (changed (tracker mf) (disk w) (files mf))\<rparr>)"
    and m: "cache c1 (resolve c mid) = Some m"
    and s: "sources c1 (resolve c mid) = Some s"
    and al: "model_aliases c1 = model_aliases c"
    by blast
  let ?tr = "snd (changed (tracker mf) (disk w) (files mf))"
  let ?mf = "mf\<lparr>tracker := ?tr\<rparr>"
  have r: "resolve c1 mid = resolve c mid" using al by (rule resolve_cong)
  have f1: "model_factories c1 (resolve c1 mid) = Some ?mf" by (simp add: mf1 r)
  have same': "same_fingerprints (files mf) (disk w) fs'"
    using same mf by (simp add: backing_files_def)
  have ch: "changed (tracker ?mf) (disk (w1\<lparr>disk := fs'\<rparr>)) (files ?mf) = (Inr False, ?tr)"
    using changed_repeat [OF b same'] by (simp add: files_def)
  have "get_model_with_sources c1 (w1\<lparr>disk := fs'\<rparr>) mid =
    (Inr (Some m, Some s),
     c1\<lparr>model_factories := (model_factories c1)(resolve c1 mid \<mapsto> ?mf\<lparr>tracker := ?tr\<rparr>)\<rparr>,
     w1\<lparr>disk := fs'\<rparr>)"
    using f1 ch _ truthy
    by (rule step_cached) (simp_all add: r m s)
  moreover have "c1\<lparr>model_factories := (model_factories c1)(resolve c1 mid \<mapsto> ?mf\<lparr>tracker := ?tr\<rparr>)\<rparr> = c1"
    using f1 by (simp add: map_upd_triv)
  ultimately show ?thesis by simp
qed

subsection \<open>The tables and the reachable states\<close>

lemma MODEL_ALIASES_no_chains:
  "map_of MODEL_ALIASES a = Some k \<Longrightarrow> map_of MODEL_ALIASES k = None"
  by (auto simp: MODEL_ALIASES_def split: if_splits)

lemma MODEL_ALIASES_registered:
  "map_of MODEL_ALIASES a = Some k \<Longrightarrow> k \<in> fst ` set MODEL_FACTORIES_table"
  by (auto simp: MODEL_ALIASES_def MODEL_FACTORIES_table_def split: if_splits)

lemma dom_MODEL_FACTORIES: "dom (MODEL_FACTORIES lib) = fst ` set MODEL_FACTORIES_table"
  by (force simp: MODEL_FACTORIES_def dom_map_of_conv_image_fst)

lemma reachable_frame:
  assumes "reachable c0 st"
  shows "model_aliases (fst st) = model_aliases c0
    \<and> dom (model_factories (fst st)) = dom (model_factories c0)"
  using assms
proof (induction rule: reachable.induct)
  case (start w)
  then show ?case by simp
next
  case (call c w model_id r c' w')
  then show ?case using call_frame [of c w model_id r c' w'] by simp
next
  case (environment c w fs)
  then show ?case by simp
qed

lemma known_model_not_none:
  assumes "model_factories c (resolve c mid) = Some mf"
  shows "fst (get_model_with_sources c w mid) \<noteq> Inr (None, None)"
  using assms
  by (auto simp: gmws_defs split: option.splits sum.splits prod.splits if_splits)

subsection \<open>A call that sees a change; lookups by alias\<close>







section \<open>Properties\<close>

text \<open>
  C1. The claim: a detected fingerprint change always leads to a rebuild before the entry
  is returned, also when the detection was consumed by an earlier call whose build
  raised. On the code this fails: the file is loaded (fingerprint 1); it is replaced
  (fingerprint 2) by content the loader rejects; the next call detects the change, the
  monitor stores fingerprint 2, the loader raises; the call after that sees no change,
  invokes no loader and returns the model built from the fingerprint-1 file.
\<close>

theorem stale_model_after_failed_build:
  "fst run_loaded = Inr (Some \<lparr>inst_id = 1, inst_truth = True, inst_state = ''v1''\<rparr>, Some [''f.dat''])
   \<and> map_option fingerprint (disk (snd (snd run_emptied)) ''f.dat'') = Some 2
   \<and> fst run_emptied = Inl (LoaderError ''f.dat'')
   \<and> map_option tracker (model_factories (fst (snd run_emptied)) ''TEST'') = Some [''f.dat'' \<mapsto> 2]
   \<and> disk (snd (snd run_emptied_again)) = disk (snd (snd run_emptied))
   \<and> loader_calls (snd (snd run_emptied_again)) = loader_calls (snd (snd run_emptied))
   \<and> fst run_emptied_again
       = Inr (Some \<lparr>inst_id = 1, inst_truth = True, inst_state = ''v1''\<rparr>, Some [''f.dat''])"
  by (simp add: run_loaded_value run_emptied_value run_emptied_again_value on_disk_def)

text \<open>
  C2. If the loader of the resolved factory raises on the current disk, a call of
  \<open>get_model_with_sources\<close> leaves the cached models and the cached sources of every
  identifier as they were, and a call that invoked the loader ends with the loader's
  exception.
\<close>

theorem loader_exception_leaves_cache:
  assumes "model_factories c (resolve c model_id) = Some mf"
    and "loader mf (disk w) (files mf) = Inl e"
    and "get_model_with_sources c w model_id = (r, c', w')"
  shows "cache c' = cache c \<and> sources c' = sources c
    \<and> (loader_calls w' = loader_calls w + 1 \<longrightarrow> r = Inl e)"
  using assms
  by (auto simp: gmws_defs split: option.splits sum.splits prod.splits if_splits)

theorem loader_exception_leaves_cache_witness:
  "model_factories (fst (snd run_loaded)) (resolve (fst (snd run_loaded)) ''TEST'')
     = Some \<lparr>loader = parsing_loader, model_files = [TEST_file], tracker = [''f.dat'' \<mapsto> 1]\<rparr>
   \<and> parsing_loader (on_disk 2 []) [''f.dat''] = Inl (LoaderError ''f.dat'')
   \<and> loader_calls (snd (snd run_emptied)) = loader_calls (snd (snd run_loaded)) + 1
   \<and> fst run_emptied = Inl (LoaderError ''f.dat'')
   \<and> cache (fst (snd run_emptied)) = cache (fst (snd run_loaded))
   \<and> sources (fst (snd run_emptied)) = sources (fst (snd run_loaded))"
proof -
  let ?c = "fst (snd run_loaded)"
  let ?w = "(snd (snd run_loaded))\<lparr>disk := on_disk 2 []\<rparr>"
  let ?mf = "\<lparr>loader = parsing_loader, model_files = [TEST_file], tracker = [''f.dat'' \<mapsto> 1]\<rparr>"
  have h1: "model_factories ?c (resolve ?c ''TEST'') = Some ?mf"
    by (simp add: run_loaded_value resolve_def)
  have h2: "loader ?mf (disk ?w) (files ?mf) = Inl (LoaderError ''f.dat'')"
    by (simp add: files_def TEST_file_def parsing_loader_def on_disk_def)
  have h3: "get_model_with_sources ?c ?w ''TEST''
      = (fst run_emptied, fst (snd run_emptied), snd (snd run_emptied))"
    by (simp add: run_emptied_def then_call_def then_disk_def)
  have h4: "parsing_loader (on_disk 2 []) [''f.dat''] = Inl (LoaderError ''f.dat'')"
    by (simp add: parsing_loader_def on_disk_def)
  have h5: "loader_calls (snd (snd run_emptied)) = loader_calls (snd (snd run_loaded)) + 1"
    by (simp add: run_loaded_value run_emptied_value)
  from loader_exception_leaves_cache [OF h1 h2 h3] h1 h4 h5 show ?thesis
    by simp
qed

text \<open>
  C3. An identifier whose alias-resolved canonical id is not a key of the factory table
  gets the result \<open>(None, None)\<close>: a value, not an exception, with the cache object and
  the world untouched.
\<close>

theorem unknown_model_returns_none:
  "model_factories c (resolve c model_id) = None \<Longrightarrow>
   get_model_with_sources c w model_id = (Inr (None, None), c, w)"
  by (simp add: get_model_with_sources_def)

theorem unknown_model_returns_none_witness:
  "model_factories (TEST_cache parsing_loader) (resolve (TEST_cache parsing_loader) ''IGRF'') = None
   \<and> get_model_with_sources (TEST_cache parsing_loader) world0 ''IGRF''
       = (Inr (None, None), TEST_cache parsing_loader, world0)"
  using unknown_model_returns_none [of "TEST_cache parsing_loader" "''IGRF''" world0]
  by (simp add: TEST_cache_def new_ModelCache_def resolve_def)

text \<open>
  C4. The claim: with unchanged backing files the second of two consecutive calls
  performs no rebuild and returns the identical instance. It fails where the cached
  model is false in Python's sense, since the code rebuilds on \<open>not model\<close>: an empty file
  read by \<open>listing_loader\<close> gives an empty list, and the second call, with the disk as it
  was, invokes the loader again and returns another instance.
\<close>

theorem falsy_model_rebuilt_on_every_call:
  "fst list_empty = Inr (Some \<lparr>inst_id = 1, inst_truth = False, inst_state = []\<rparr>, Some [''f.dat''])
   \<and> disk (snd (snd list_empty)) = disk world_empty
   \<and> loader_calls (snd (snd list_empty)) = 1
   \<and> fst list_empty_again
       = Inr (Some \<lparr>inst_id = 2, inst_truth = False, inst_state = []\<rparr>, Some [''f.dat''])
   \<and> loader_calls (snd (snd list_empty_again)) = 2"
  by (simp add: list_empty_value list_empty_again_value world_empty_def)

text \<open>
  C4, as amended. If a call returned a model whose truth value is true, and the backing
  files of the identifier show the same fingerprints at the next call, then that call
  returns the same instance and the same sources, invokes no loader and leaves the cache
  object as it was.
\<close>

theorem cached_instance_reused:
  assumes "get_model_with_sources c w model_id = (Inr (Some m, Some s), c1, w1)"
    and "inst_truth m"
    and "same_fingerprints (backing_files c model_id) (disk w) fs'"
  shows "get_model_with_sources c1 (w1\<lparr>disk := fs'\<rparr>) model_id
       = (Inr (Some m, Some s), c1, w1\<lparr>disk := fs'\<rparr>)"
  using assms by (rule cached_again)

text \<open>
  The file's content changes but not its fingerprint: the cached instance is returned.
\<close>

theorem cached_instance_reused_witness:
  "get_model_with_sources (TEST_cache parsing_loader) world0 ''TEST''
     = (Inr (Some \<lparr>inst_id = 1, inst_truth = True, inst_state = ''v1''\<rparr>, Some [''f.dat'']),
        fst (snd run_loaded), snd (snd run_loaded))
   \<and> same_fingerprints (backing_files (TEST_cache parsing_loader) ''TEST'') (disk world0)
         (on_disk 1 ''v2'')
   \<and> get_model_with_sources (fst (snd run_loaded)) ((snd (snd run_loaded))\<lparr>disk := on_disk 1 ''v2''\<rparr>) ''TEST''
     = (Inr (Some \<lparr>inst_id = 1, inst_truth = True, inst_state = ''v1''\<rparr>, Some [''f.dat'']),
        fst (snd run_loaded), (snd (snd run_loaded))\<lparr>disk := on_disk 1 ''v2''\<rparr>)"
proof -
  let ?m = "\<lparr>inst_id = 1, inst_truth = True, inst_state = ''v1''\<rparr>"
  have h1: "get_model_with_sources (TEST_cache parsing_loader) world0 ''TEST''
     = (Inr (Some ?m, Some [''f.dat'']), fst (snd run_loaded), snd (snd run_loaded))"
    using run_loaded_value by (simp add: run_loaded_def)
  have h2: "inst_truth ?m" by simp
  have h3: "same_fingerprints (backing_files (TEST_cache parsing_loader) ''TEST'') (disk world0)
         (on_disk 1 ''v2'')"
    by (simp add: same_fingerprints_def backing_files_def TEST_cache_def TEST_factory_def
        new_ModelCache_def resolve_def files_def TEST_file_def world0_def on_disk_def)
  from cached_instance_reused [OF h1 h2 h3] h1 h3 show ?thesis by simp
qed







text \<open>
  C7. \<open>FileChangeMonitor.changed\<close>, on files that are present: it returns \<open>True\<close> when
  one of the paths has no stored fingerprint; on return the stored fingerprint of every
  path is the one just observed; and a repeat call, on a disk showing the same
  fingerprints, returns \<open>False\<close> and stores nothing new.
\<close>

theorem changed_first_then_repeat:
  "(p \<in> set ps \<and> tr p = None \<and> all_present ps fs \<longrightarrow> fst (changed tr fs ps) = Inr True)
   \<and> (fst (changed tr fs ps) = Inr b \<and> q \<in> set ps \<longrightarrow>
        snd (changed tr fs ps) q = map_option fingerprint (fs q))
   \<and> (fst (changed tr fs ps) = Inr b \<and> same_fingerprints ps fs fs' \<longrightarrow>
        changed (snd (changed tr fs ps)) fs' ps = (Inr False, snd (changed tr fs ps)))"
proof (intro conjI impI)
  assume "p \<in> set ps \<and> tr p = None \<and> all_present ps fs"
  then show "fst (changed tr fs ps) = Inr True"
    using changed_first_observation by blast
next
  assume a: "fst (changed tr fs ps) = Inr b \<and> q \<in> set ps"
  then have pr: "\<forall>q\<in>set ps. fs q \<noteq> None" using changed_Inr_present by blast
  with a obtain f where "fs q = Some f" by auto
  with a show "snd (changed tr fs ps) q = map_option fingerprint (fs q)"
    by (simp add: changed_present [OF pr])
next
  assume "fst (changed tr fs ps) = Inr b \<and> same_fingerprints ps fs fs'"
  then show "changed (snd (changed tr fs ps)) fs' ps = (Inr False, snd (changed tr fs ps))"
    using changed_repeat by blast
qed

text \<open>
  The first and the second look at \<open>f.dat\<close>.
\<close>

theorem changed_first_then_repeat_witness:
  "''f.dat'' \<in> set [''f.dat''] \<and> (Map.empty :: FileChangeMonitor) ''f.dat'' = None
   \<and> all_present [''f.dat''] (on_disk 1 ''v1'')
   \<and> same_fingerprints [''f.dat''] (on_disk 1 ''v1'') (on_disk 1 ''v1'')
   \<and> changed Map.empty (on_disk 1 ''v1'') [''f.dat''] = (Inr True, [''f.dat'' \<mapsto> 1])
   \<and> changed [''f.dat'' \<mapsto> 1] (on_disk 1 ''v1'') [''f.dat''] = (Inr False, [''f.dat'' \<mapsto> 1])"
proof -
  have v: "changed Map.empty (on_disk 1 ''v1'') [''f.dat''] = (Inr True, [''f.dat'' \<mapsto> 1])"
    by (simp add: changed_def on_disk_def)
  have h1: "all_present [''f.dat''] (on_disk 1 ''v1'')" by (simp add: all_present_def on_disk_def)
  have h2: "same_fingerprints [''f.dat''] (on_disk 1 ''v1'') (on_disk 1 ''v1'')"
    by (rule same_fingerprints_refl)
  from changed_first_then_repeat
    [of "''f.dat''" "[''f.dat'']" Map.empty "on_disk 1 ''v1''" True "''f.dat''" "on_disk 1 ''v1''"]
    v h1 h2
  show ?thesis by (simp add: on_disk_def)
qed

text \<open>
  C9. For the options the argument parser produces from a command line (the parent
  classes declaring no option \<open>cource\<close>), \<open>handle\<close> raises \<open>KeyError\<close> for the key
  \<open>cource\<close>, having made no call of \<open>update_cached_product\<close>.
\<close>

theorem handle_raises_KeyError_cource:
  assumes "base ''cource'' = None"
    and "parse_args choices base argv = Inr kwargs"
  shows "handle update_cached_product CACHED_PRODUCTS kwargs = (Inl (KeyError ''cource''), [])"
  using assms
  by (auto simp: parse_args_def handle_def split: list.splits if_splits)

text \<open>
  A command line naming a product type and two sources.
\<close>

theorem handle_raises_KeyError_cource_witness:
  "(Map.empty :: kwargs) ''cource'' = None
   \<and> parse_args [''MMA_SHA_2C'', ''MMA_SHA_2F''] Map.empty [''MMA_SHA_2C'', ''a.cdf'', ''b.cdf'']
       = Inr [''product_type'' \<mapsto> Str ''MMA_SHA_2C'', ''source'' \<mapsto> StrList [''a.cdf'', ''b.cdf'']]
   \<and> handle (\<lambda>_. Inr ()) [''MMA_SHA_2C'' \<mapsto> [''filename'' \<mapsto> ''mma.cdf'']]
        [''product_type'' \<mapsto> Str ''MMA_SHA_2C'', ''source'' \<mapsto> StrList [''a.cdf'', ''b.cdf'']]
       = (Inl (KeyError ''cource''), [])"
proof -
  have h1: "(Map.empty :: kwargs) ''cource'' = None" by simp
  have h2: "parse_args [''MMA_SHA_2C'', ''MMA_SHA_2F''] Map.empty [''MMA_SHA_2C'', ''a.cdf'', ''b.cdf'']
       = Inr [''product_type'' \<mapsto> Str ''MMA_SHA_2C'', ''source'' \<mapsto> StrList [''a.cdf'', ''b.cdf'']]"
    by (simp add: parse_args_def)
  from handle_raises_KeyError_cource [OF h1 h2] h1 h2 show ?thesis by simp
qed

text \<open>
  C10. Every value of \<open>MODEL_ALIASES\<close> is a key of \<open>MODEL_FACTORIES\<close> and none is an
  alias; so in every state the default \<open>MODEL_CACHE\<close> reaches, the lookup of an alias
  never gives the unknown-model result \<open>(None, None)\<close>.
\<close>

theorem aliases_resolve_to_registered_models:
  "list_all (\<lambda>(a, k). k \<in> set (map fst MODEL_FACTORIES_table) \<and> k \<notin> set (map fst MODEL_ALIASES))
     MODEL_ALIASES
   \<and> (reachable (MODEL_CACHE lib) (c, w) \<and> a \<in> set (map fst MODEL_ALIASES) \<longrightarrow>
        fst (get_model_with_sources c w a) \<noteq> Inr (None, None))"
proof (intro conjI impI)
  show "list_all (\<lambda>(a, k). k \<in> set (map fst MODEL_FACTORIES_table) \<and> k \<notin> set (map fst MODEL_ALIASES))
     MODEL_ALIASES"
    by (simp add: MODEL_ALIASES_def MODEL_FACTORIES_table_def)
next
  assume a: "reachable (MODEL_CACHE lib) (c, w) \<and> a \<in> set (map fst MODEL_ALIASES)"
  from reachable_frame [of "MODEL_CACHE lib" "(c, w)"] a
  have al: "model_aliases c = map_of MODEL_ALIASES"
    and dom: "dom (model_factories c) = fst ` set MODEL_FACTORIES_table"
    by (simp_all add: MODEL_CACHE_def new_ModelCache_def dom_MODEL_FACTORIES)
  from a obtain k where k: "map_of MODEL_ALIASES a = Some k"
    by (metis domD dom_map_of_conv_image_fst set_map)
  then have r: "resolve c a = k" by (simp add: resolve_def al)
  from MODEL_ALIASES_registered [OF k] dom obtain mf where "model_factories c k = Some mf"
    by blast
  with r show "fst (get_model_with_sources c w a) \<noteq> Inr (None, None)"
    using known_model_not_none by metis
qed

text \<open>
  The alias \<open>IGRF\<close> on the cache as constructed.
\<close>

theorem aliases_resolve_to_registered_models_witness:
  "reachable (MODEL_CACHE TEST_library) (MODEL_CACHE TEST_library, world0)
   \<and> ''IGRF'' \<in> set (map fst MODEL_ALIASES)
   \<and> fst (get_model_with_sources (MODEL_CACHE TEST_library) world0 ''IGRF'') \<noteq> Inr (None, None)"
proof -
  have h: "reachable (MODEL_CACHE TEST_library) (MODEL_CACHE TEST_library, world0)"
    by (rule reachable.start)
  have i: "''IGRF'' \<in> set (map fst MODEL_ALIASES)" by (simp add: MODEL_ALIASES_def)
  from aliases_resolve_to_registered_models
    [of TEST_library "MODEL_CACHE TEST_library" world0 "''IGRF''"] h i
  show ?thesis by simp
qed

end
